theory Spec2Isabelle
  imports Main
begin

section \<open>Python scalars, errors and string helpers\<close>

text \<open>
  The program is the script \<^verbatim>\<open>TestGraphs/MakeConfigs/Moisture.py\<close>: it resolves a
  directory, loads \<^verbatim>\<open>FieldConfigs.xlsx\<close> with pandas, indexes the table by its
  \<^verbatim>\<open>Name\<close> column, writes the transposed table as CSV and the indexed table as a
  pickle. The script is embedded statement by statement; every exception it can raise is
  a value of \<open>py_error\<close>.
\<close>

datatype pyval = PyNone | PyBool bool | PyInt int | PyStr string | PyNaN

datatype py_error =
    NameError string
  | KeyError string
  | FileNotFoundError string
  | ValueError string
  | OSError string

text \<open>Python's \<^verbatim>\<open>==\<close> on scalars: a \<^verbatim>\<open>bool\<close> is an \<^verbatim>\<open>int\<close> (\<^verbatim>\<open>True == 1\<close>), a
  \<^verbatim>\<open>str\<close> equals only a \<^verbatim>\<open>str\<close>, \<^verbatim>\<open>None\<close> equals only \<^verbatim>\<open>None\<close>, and the float
  \<^verbatim>\<open>nan\<close> equals nothing.\<close>

fun py_eq :: "pyval \<Rightarrow> pyval \<Rightarrow> bool" where
  "py_eq PyNone PyNone = True"
| "py_eq (PyBool a) (PyBool b) = (a = b)"
| "py_eq (PyBool a) (PyInt i) = (i = (if a then 1 else 0))"
| "py_eq (PyInt i) (PyBool a) = (i = (if a then 1 else 0))"
| "py_eq (PyInt i) (PyInt j) = (i = j)"
| "py_eq (PyStr s) (PyStr t) = (s = t)"
| "py_eq _ _ = False"

text \<open>\<^verbatim>\<open>sub in s\<close> on strings: \<open>sub\<close> occurs in \<open>s\<close> as a contiguous substring.\<close>

fun startswith :: "string \<Rightarrow> string \<Rightarrow> bool" where
  "startswith s [] = True"
| "startswith [] (p # ps) = False"
| "startswith (c # cs) (p # ps) = (c = p \<and> startswith cs ps)"

fun str_contains :: "string \<Rightarrow> string \<Rightarrow> bool" where
  "str_contains sub [] = (sub = [])"
| "str_contains sub (c # cs) = (startswith (c # cs) sub \<or> str_contains sub cs)"

text \<open>\<^verbatim>\<open>s.split(sep)\<close> for a one-character separator: never the empty list; two
  separators in a row give an empty fragment.\<close>

fun py_split :: "char \<Rightarrow> string \<Rightarrow> string list" where
  "py_split sep [] = [[]]"
| "py_split sep (c # cs) =
     (if c = sep then [] # py_split sep cs
      else (case py_split sep cs of
              [] \<Rightarrow> [[c]]
            | f # fs \<Rightarrow> (c # f) # fs))"

text \<open>\<^verbatim>\<open>str(n)\<close> on integers: decimal digits, a minus sign for a negative number.\<close>

fun str_nat :: "nat \<Rightarrow> string" where
  "str_nat n =
     (if n < 10 then [''0123456789'' ! n]
      else str_nat (n div 10) @ [''0123456789'' ! (n mod 10)])"

declare str_nat.simps [simp del]

definition str_int :: "int \<Rightarrow> string" where
  "str_int i = (if i < 0 then CHR ''-'' # str_nat (nat (- i)) else str_nat (nat i))"

section \<open>Worksheets and data frames\<close>

text \<open>
  pandas is a library the script calls, not code of the repository: the functions the
  script uses are modelled here from their documented behaviour, on tables of text and
  integers.

  The first sheet of a workbook as pandas' reader hands it to the parser: the text of the
  header cells (the empty string for a blank header cell) and the data rows the parser
  takes, top to bottom. A cell is blank, text or an integer. Outside the model are
  floating-point cells and dates, the parser's column type inference, and the renaming of
  a header text that occurs twice (\<^verbatim>\<open>X\<close>, \<^verbatim>\<open>X.1\<close>): the header texts that are not
  blank are taken to differ from one another.
\<close>

datatype xl_cell = XBlank | XText string | XInt int

record worksheet =
  header :: "string list"
  body :: "xl_cell list list"

text \<open>
  A \<^verbatim>\<open>DataFrame\<close>: the row labels with the name of the row axis, the column labels with
  the name of the column axis, and the cells row by row.
\<close>

record dataframe =
  index :: "pyval list"
  index_name :: "string option"
  columns :: "pyval list"
  columns_name :: "string option"
  cells :: "pyval list list"

text \<open>A frame is rectangular: one row of cells per row label, one cell per column label.\<close>

definition rect :: "dataframe \<Rightarrow> bool" where
  "rect df \<longleftrightarrow>
     length (cells df) = length (index df) \<and>
     list_all (\<lambda>r. length r = length (columns df)) (cells df)"

subsection \<open>\<^verbatim>\<open>pd.read_excel\<close>\<close>

text \<open>
  The reader pads every row it reads, the header row included, with blank cells to the
  width of the widest of them. A blank header cell in position \<open>i\<close> is named
  \<^verbatim>\<open>Unnamed: i\<close>.
\<close>

definition pad_to :: "nat \<Rightarrow> 'a \<Rightarrow> 'a list \<Rightarrow> 'a list" where
  "pad_to w x xs = xs @ replicate (w - length xs) x"

definition sheet_width :: "string list \<Rightarrow> xl_cell list list \<Rightarrow> nat" where
  "sheet_width hs rows = fold max (map length rows) (length hs)"

definition column_names :: "string list \<Rightarrow> string list" where
  "column_names hs =
     map (\<lambda>(i, h). if h = [] then ''Unnamed: '' @ str_nat i else h) (zip [0..<length hs] hs)"

text \<open>
  The strings pandas reads as missing values unless \<^verbatim>\<open>keep_default_na=False\<close>; the empty
  string, which is what a blank cell holds, is one of them.
\<close>

definition default_na :: "string list" where
  "default_na = [[], ''#N/A'', ''#N/A N/A'', ''#NA'', ''-1.#IND'', ''-1.#QNAN'', ''-NaN'',
     ''-nan'', ''1.#IND'', ''1.#QNAN'', ''<NA>'', ''N/A'', ''NA'', ''NULL'', ''NaN'', ''None'',
     ''n/a'', ''nan'', ''null'']"

fun cell_value :: "bool \<Rightarrow> xl_cell \<Rightarrow> pyval" where
  "cell_value keep_default_na XBlank = (if keep_default_na then PyNaN else PyStr [])"
| "cell_value keep_default_na (XText s) =
     (if keep_default_na \<and> s \<in> set default_na then PyNaN else PyStr s)"
| "cell_value keep_default_na (XInt n) = PyInt n"

text \<open>
  \<^verbatim>\<open>read_excel(..., nrows=n, usecols=f, keep_default_na=k)\<close> on a sheet: the first \<open>n\<close>
  data rows, the columns whose name \<open>f\<close> accepts, a \<^verbatim>\<open>RangeIndex\<close> as row labels.
\<close>

definition kept_columns :: "(string \<Rightarrow> bool) \<Rightarrow> string list \<Rightarrow> nat list" where
  "kept_columns usecols names = filter (\<lambda>c. usecols (names ! c)) [0..<length names]"

definition parse_sheet :: "worksheet \<Rightarrow> nat \<Rightarrow> (string \<Rightarrow> bool) \<Rightarrow> bool \<Rightarrow> dataframe" where
  "parse_sheet ws nrows usecols keep_default_na =
     (let rows = take nrows (body ws);
          w = sheet_width (header ws) rows;
          names = column_names (pad_to w [] (header ws));
          kept = kept_columns usecols names
      in \<lparr> index = map (\<lambda>i. PyInt (int i)) [0..<length rows],
           index_name = None,
           columns = map (\<lambda>c. PyStr (names ! c)) kept,
           columns_name = None,
           cells = map (\<lambda>r. map (\<lambda>c. cell_value keep_default_na (pad_to w XBlank r ! c)) kept) rows \<rparr>)"

subsection \<open>\<^verbatim>\<open>DataFrame.set_index\<close> and \<^verbatim>\<open>DataFrame.transpose\<close>\<close>

fun find_label :: "pyval \<Rightarrow> pyval list \<Rightarrow> nat option" where
  "find_label l [] = None"
| "find_label l (x # xs) =
     (if x = l then Some 0 else map_option Suc (find_label l xs))"

definition drop_nth :: "nat \<Rightarrow> 'a list \<Rightarrow> 'a list" where
  "drop_nth k xs = take k xs @ drop (Suc k) xs"

text \<open>
  \<^verbatim>\<open>df.set_index(key, inplace=True)\<close>: the column \<open>key\<close> becomes the row labels and is
  dropped from the columns; the row axis takes its name. A key that is no column raises
  \<^verbatim>\<open>KeyError\<close>.
\<close>

definition set_index :: "string \<Rightarrow> dataframe \<Rightarrow> py_error + dataframe" where
  "set_index key df =
     (case find_label (PyStr key) (columns df) of
        None \<Rightarrow> Inl (KeyError (''None of ['' @ [CHR 0x27] @ key @ [CHR 0x27] @ ''] are in the columns''))
      | Some k \<Rightarrow>
          Inr (df \<lparr> index := map (\<lambda>r. r ! k) (cells df),
                    index_name := Some key,
                    columns := drop_nth k (columns df),
                    cells := map (drop_nth k) (cells df) \<rparr>))"

text \<open>\<^verbatim>\<open>df.transpose()\<close>: a new frame with the two axes, their names and the cells swapped.\<close>

definition transpose_df :: "dataframe \<Rightarrow> dataframe" where
  "transpose_df df =
     \<lparr> index = columns df,
       index_name = columns_name df,
       columns = index df,
       columns_name = index_name df,
       cells = map (\<lambda>j. map (\<lambda>r. r ! j) (cells df)) [0..<length (columns df)] \<rparr>"

subsection \<open>\<^verbatim>\<open>DataFrame.to_csv\<close>\<close>

text \<open>
  How a label or a cell is written: text as it is, an integer in decimal, a missing value
  as the empty string (\<^verbatim>\<open>na_rep\<close>).
\<close>

fun csv_str :: "pyval \<Rightarrow> string" where
  "csv_str (PyStr s) = s"
| "csv_str (PyInt i) = str_int i"
| "csv_str (PyBool b) = (if b then ''True'' else ''False'')"
| "csv_str PyNone = []"
| "csv_str PyNaN = []"

text \<open>
  The records \<^verbatim>\<open>to_csv(header=True)\<close> hands to the CSV writer. The first field of the
  header record is the name of the row axis, or the empty string when that axis has no
  name; the column labels follow. Every other record is a row label and the row's cells.
\<close>

definition csv_records :: "dataframe \<Rightarrow> string list list" where
  "csv_records df =
     ((case index_name df of None \<Rightarrow> [] | Some n \<Rightarrow> n) # map csv_str (columns df))
     # map (\<lambda>(l, r). csv_str l # map csv_str r) (zip (index df) (cells df))"

text \<open>
  The CSV writer with minimal quoting: a field holding a comma, a double quote or a line
  break is put in double quotes with its quotes doubled, and a record that is one empty
  field is written as two quotes.
\<close>

definition csv_field :: "string \<Rightarrow> string" where
  "csv_field f =
     (if list_ex (\<lambda>c. c \<in> set [CHR '','', CHR 0x22, CHR 0x0A, CHR 0x0D]) f
      then [CHR 0x22] @ concat (map (\<lambda>c. if c = CHR 0x22 then [c, c] else [c]) f) @ [CHR 0x22]
      else f)"

fun join_fields :: "string list \<Rightarrow> string" where
  "join_fields [] = []"
| "join_fields [f] = f"
| "join_fields (f # g # fs) = f @ CHR '','' # join_fields (g # fs)"

definition csv_line :: "string list \<Rightarrow> string" where
  "csv_line fs = (if fs = [[]] then [CHR 0x22, CHR 0x22] else join_fields (map csv_field fs))"

definition to_csv_lines :: "dataframe \<Rightarrow> string list" where
  "to_csv_lines df = map csv_line (csv_records df)"

section \<open>The script\<close>

subsection \<open>The process and its files\<close>

text \<open>
  What the script reads from outside: the environment variables, the absolute path
  \<^verbatim>\<open>os.path.abspath('WS2.ipynb')\<close> (the working directory joined with that name) and the
  platform's \<^verbatim>\<open>os.path.join\<close>, which is a parameter: nothing below depends on how the
  platform joins path components. \<open>can_write\<close> says where a file can be created.
\<close>

record host =
  environ :: "string \<rightharpoonup> string"
  notebook_abspath :: string
  path_join :: "string \<Rightarrow> string list \<Rightarrow> string"
  can_write :: "string \<Rightarrow> bool"

text \<open>
  A file is a workbook (its first sheet), a text file of CSV lines, or a pickle, which is
  modelled by the frame it stores: \<^verbatim>\<open>read_pickle\<close> returns the object \<^verbatim>\<open>to_pickle\<close> was
  given, and the byte format is not modelled.
\<close>

datatype disk_file = XlsxFile worksheet | CsvFile "string list" | PklFile dataframe

datatype event = ReadFile string | WriteFile string

text \<open>
  The state of a run: the files, the file operations done so far, and the module's global
  variables, each unbound (\<open>None\<close>) until the script assigns it.
\<close>

record state =
  sys :: host
  files :: "string \<rightharpoonup> disk_file"
  events :: "event list"
  v_root :: "string option"
  v_inPath :: "string option"
  v_outPath :: "string option"
  v_rootfrags :: "string list option"
  v_d :: "string option"
  v_path :: "string option"
  v_Configs :: "dataframe option"
  v_CSConfigs :: "dataframe option"

definition initial :: "host \<Rightarrow> (string \<rightharpoonup> disk_file) \<Rightarrow> state" where
  "initial h fs =
     \<lparr> sys = h, files = fs, events = [],
       v_root = None, v_inPath = None, v_outPath = None, v_rootfrags = None, v_d = None,
       v_path = None, v_Configs = None, v_CSConfigs = None \<rparr>"

text \<open>\<^verbatim>\<open>os.getenv(k)\<close> is the variable's text or \<^verbatim>\<open>None\<close>; \<^verbatim>\<open>os.environ[k]\<close> raises
  \<^verbatim>\<open>KeyError\<close> when the variable is not set.\<close>

definition os_getenv :: "host \<Rightarrow> string \<Rightarrow> pyval" where
  "os_getenv h k = (case environ h k of None \<Rightarrow> PyNone | Some v \<Rightarrow> PyStr v)"

definition os_environ_get :: "host \<Rightarrow> string \<Rightarrow> py_error + string" where
  "os_environ_get h k = (case environ h k of None \<Rightarrow> Inl (KeyError k) | Some v \<Rightarrow> Inr v)"

text \<open>Reading a global variable: an unbound name raises \<^verbatim>\<open>NameError\<close>.\<close>

definition global :: "string \<Rightarrow> 'a option \<Rightarrow> py_error + 'a" where
  "global name v = (case v of None \<Rightarrow> Inl (NameError name) | Some x \<Rightarrow> Inr x)"

subsection \<open>Lines 19 to 31: the directories\<close>

definition backslash :: char where
  "backslash = CHR 0x5C"

text \<open>The test of line 19, \<^verbatim>\<open>os.getenv("GITHUB_ACTIONS") == True\<close>.\<close>

definition ci_test :: "host \<Rightarrow> bool" where
  "ci_test h = py_eq (os_getenv h ''GITHUB_ACTIONS'') (PyBool True)"

text \<open>
  The loop of lines 26 to 30 over the fragments still to visit, with the root built so far
  and the loop variable \<^verbatim>\<open>d\<close>: it stops at the first fragment \<^verbatim>\<open>FieldNBalance\<close>, or
  when the fragments are used up.
\<close>

fun walk :: "string list \<Rightarrow> string \<Rightarrow> string option \<Rightarrow> string \<times> string option" where
  "walk [] root d = (root, d)"
| "walk (x # xs) root d =
     (if x = ''FieldNBalance'' then (root, Some x)
      else walk xs (root @ x @ [backslash]) (Some x))"

text \<open>
  The \<^verbatim>\<open>if\<close> statement of lines 19 to 31, given the value of its test. The first branch
  binds \<^verbatim>\<open>root\<close>, \<^verbatim>\<open>inPath\<close> and \<^verbatim>\<open>outPath\<close>; the second binds \<^verbatim>\<open>rootfrags\<close>, \<^verbatim>\<open>root\<close>,
  \<^verbatim>\<open>d\<close> and \<^verbatim>\<open>path\<close>.
\<close>

definition resolve_dirs :: "bool \<Rightarrow> state \<Rightarrow> py_error + state" where
  "resolve_dirs ci s =
     (if ci then
        (case os_environ_get (sys s) ''GITHUB_WORKSPACE'' of
           Inl e \<Rightarrow> Inl e
         | Inr root \<Rightarrow>
             Inr (s \<lparr> v_root := Some root,
                      v_inPath := Some (path_join (sys s) root
                          [''TestComponents'', ''TestSets'', ''Moisture'', ''Outputs'']),
                      v_outPath := Some (path_join (sys s) root [''TestGraphs'', ''Outputs'']) \<rparr>))
      else
        (let rootfrags = py_split backslash (notebook_abspath (sys s));
             (root, d) = walk rootfrags [] (v_d s)
         in Inr (s \<lparr> v_rootfrags := Some rootfrags,
                     v_root := Some root,
                     v_d := d,
                     v_path := Some (path_join (sys s) root
                         [''FieldNBalance'', ''TestComponents'', ''TestSets'', ''Moisture'']) \<rparr>)))"

subsection \<open>Lines 33 to 44: load, index, transpose, write\<close>

text \<open>The \<^verbatim>\<open>usecols\<close> function of line 36, \<^verbatim>\<open>lambda x: 'Unnamed' not in x\<close>.\<close>

definition usecols :: "string \<Rightarrow> bool" where
  "usecols x = (\<not> str_contains ''Unnamed'' x)"

definition read_excel ::
  "(string \<rightharpoonup> disk_file) \<Rightarrow> string \<Rightarrow> nat \<Rightarrow> (string \<Rightarrow> bool) \<Rightarrow> bool \<Rightarrow> py_error + dataframe" where
  "read_excel fs p nrows f keep_default_na =
     (case fs p of
        None \<Rightarrow> Inl (FileNotFoundError p)
      | Some (XlsxFile ws) \<Rightarrow> Inr (parse_sheet ws nrows f keep_default_na)
      | Some _ \<Rightarrow> Inl (ValueError ''Excel file format cannot be determined''))"


text \<open>Creating or overwriting a file.\<close>

definition write_file :: "string \<Rightarrow> disk_file \<Rightarrow> state \<Rightarrow> py_error + state" where
  "write_file p f s =
     (if can_write (sys s) p
      then Inr (s \<lparr> files := (files s)(p \<mapsto> f), events := events s @ [WriteFile p] \<rparr>)
      else Inl (OSError p))"

text \<open>Lines 33 to 37.\<close>

definition load_configs :: "state \<Rightarrow> py_error + state" where
  "load_configs s =
     (case global ''path'' (v_path s) of
        Inl e \<Rightarrow> Inl e
      | Inr path \<Rightarrow>
          (case read_excel (files s) (path_join (sys s) path [''FieldConfigs.xlsx''])
                  45 usecols False of
             Inl e \<Rightarrow> Inl e
           | Inr df \<Rightarrow>
               Inr (s \<lparr> v_Configs := Some df,
                        events := events s
                          @ [ReadFile (path_join (sys s) path [''FieldConfigs.xlsx''])] \<rparr>)))"

text \<open>Line 39.\<close>

definition index_configs :: "state \<Rightarrow> py_error + state" where
  "index_configs s =
     (case global ''Configs'' (v_Configs s) of
        Inl e \<Rightarrow> Inl e
      | Inr df \<Rightarrow>
          (case set_index ''Name'' df of
             Inl e \<Rightarrow> Inl e
           | Inr df' \<Rightarrow> Inr (s \<lparr> v_Configs := Some df' \<rparr>)))"

text \<open>Line 41.\<close>

definition transpose_configs :: "state \<Rightarrow> py_error + state" where
  "transpose_configs s =
     (case global ''Configs'' (v_Configs s) of
        Inl e \<Rightarrow> Inl e
      | Inr df \<Rightarrow> Inr (s \<lparr> v_CSConfigs := Some (transpose_df df) \<rparr>))"

text \<open>Line 42.\<close>

definition write_csv :: "state \<Rightarrow> py_error + state" where
  "write_csv s =
     (case global ''CSConfigs'' (v_CSConfigs s) of
        Inl e \<Rightarrow> Inl e
      | Inr df \<Rightarrow>
          (case global ''path'' (v_path s) of
             Inl e \<Rightarrow> Inl e
           | Inr path \<Rightarrow>
               write_file (path_join (sys s) path [''FieldConfigs.csv''])
                 (CsvFile (to_csv_lines df)) s))"

text \<open>Line 44.\<close>

definition write_pickle :: "state \<Rightarrow> py_error + state" where
  "write_pickle s =
     (case global ''Configs'' (v_Configs s) of
        Inl e \<Rightarrow> Inl e
      | Inr df \<Rightarrow>
          (case global ''path'' (v_path s) of
             Inl e \<Rightarrow> Inl e
           | Inr path \<Rightarrow>
               write_file (path_join (sys s) path [''FieldConfigs.pkl'']) (PklFile df) s))"

subsection \<open>The whole script\<close>

text \<open>
  Statements run in order; the first exception ends the run, and the state is the one the
  failing statement started in.
\<close>

fun exec :: "(state \<Rightarrow> py_error + state) list \<Rightarrow> state \<Rightarrow> py_error option \<times> state" where
  "exec [] s = (None, s)"
| "exec (st # sts) s = (case st s of Inl e \<Rightarrow> (Some e, s) | Inr s' \<Rightarrow> exec sts s')"

text \<open>The script with the test of line 19 taken as \<open>ci\<close>, and the script as it runs.\<close>

definition script :: "bool \<Rightarrow> (state \<Rightarrow> py_error + state) list" where
  "script ci =
     [resolve_dirs ci, load_configs, index_configs, transpose_configs, write_csv, write_pickle]"

definition run :: "host \<Rightarrow> (string \<rightharpoonup> disk_file) \<Rightarrow> py_error option \<times> state" where
  "run h fs = exec (script (ci_test h)) (initial h fs)"

text \<open>\<^verbatim>\<open>posixpath.join\<close>, the \<^verbatim>\<open>os.path.join\<close> of a POSIX platform, for concrete runs.\<close>

fun posix_join :: "string \<Rightarrow> string list \<Rightarrow> string" where
  "posix_join a [] = a"
| "posix_join a (b # bs) =
     posix_join
       (if startswith b ''/'' then b
        else if a = [] \<or> last a = CHR ''/'' then a @ b
        else a @ ''/'' @ b)
       bs"

section \<open>The directory and the files of a run\<close>

text \<open>
  The directory of the second branch: the root the loop of lines 26 to 30 builds from the
  notebook's absolute path, joined with the fixed components of line 31; and the three
  files the script names in it.
\<close>

definition local_root :: "host \<Rightarrow> string" where
  "local_root h = fst (walk (py_split backslash (notebook_abspath h)) [] None)"

definition local_dir :: "host \<Rightarrow> string" where
  "local_dir h =
     path_join h (local_root h) [''FieldNBalance'', ''TestComponents'', ''TestSets'', ''Moisture'']"

definition xlsx_path :: "host \<Rightarrow> string" where
  "xlsx_path h = path_join h (local_dir h) [''FieldConfigs.xlsx'']"

definition csv_path :: "host \<Rightarrow> string" where
  "csv_path h = path_join h (local_dir h) [''FieldConfigs.csv'']"

definition pkl_path :: "host \<Rightarrow> string" where
  "pkl_path h = path_join h (local_dir h) [''FieldConfigs.pkl'']"

text \<open>The state line 31 leaves, and the state a run that reaches the end leaves.\<close>

definition resolved :: "host \<Rightarrow> (string \<rightharpoonup> disk_file) \<Rightarrow> state" where
  "resolved h fs =
     (initial h fs)
       \<lparr> v_rootfrags := Some (py_split backslash (notebook_abspath h)),
         v_root := Some (local_root h),
         v_d := snd (walk (py_split backslash (notebook_abspath h)) [] None),
         v_path := Some (local_dir h) \<rparr>"

definition finished :: "host \<Rightarrow> (string \<rightharpoonup> disk_file) \<Rightarrow> dataframe \<Rightarrow> state" where
  "finished h fs df =
     (resolved h fs)
       \<lparr> v_Configs := Some df,
         v_CSConfigs := Some (transpose_df df),
         events := [ReadFile (xlsx_path h), WriteFile (csv_path h), WriteFile (pkl_path h)],
         files := fs(csv_path h \<mapsto> CsvFile (to_csv_lines (transpose_df df)),
                     pkl_path h \<mapsto> PklFile df) \<rparr>"

section \<open>The sheet as the loader of lines 33 to 37 sees it\<close>

text \<open>
  The data rows line 35 lets through, the column names pandas gives the header of those
  rows, a cell of a row by its column (blank when the row ends before it), the columns
  line 36 keeps, and among them the \<^verbatim>\<open>Name\<close> column and the others.
\<close>

definition loaded_rows :: "worksheet \<Rightarrow> xl_cell list list" where
  "loaded_rows ws = take 45 (body ws)"

definition sheet_names :: "worksheet \<Rightarrow> string list" where
  "sheet_names ws =
     column_names (pad_to (sheet_width (header ws) (loaded_rows ws)) [] (header ws))"

definition cell_at :: "xl_cell list \<Rightarrow> nat \<Rightarrow> xl_cell" where
  "cell_at r c = (if c < length r then r ! c else XBlank)"

definition sheet_cols :: "worksheet \<Rightarrow> nat list" where
  "sheet_cols ws = kept_columns usecols (sheet_names ws)"

definition name_pos :: "worksheet \<Rightarrow> nat option" where
  "name_pos ws = find_label (PyStr ''Name'') (map (\<lambda>c. PyStr (sheet_names ws ! c)) (sheet_cols ws))"

definition name_col :: "worksheet \<Rightarrow> nat" where
  "name_col ws = (case name_pos ws of None \<Rightarrow> 0 | Some k \<Rightarrow> sheet_cols ws ! k)"

definition data_cols :: "worksheet \<Rightarrow> nat list" where
  "data_cols ws = (case name_pos ws of None \<Rightarrow> sheet_cols ws | Some k \<Rightarrow> drop_nth k (sheet_cols ws))"

text \<open>
  The table a sheet with a \<^verbatim>\<open>Name\<close> column is expected to give, cell by cell: the row
  labels are the \<^verbatim>\<open>Name\<close> cells, the columns are the other kept columns, and a blank
  cell is the empty string. \<open>loaded_indexed\<close> below proves that lines 33 to 39 compute it.
\<close>

definition config_table :: "worksheet \<Rightarrow> dataframe" where
  "config_table ws =
     \<lparr> index = map (\<lambda>r. cell_value False (cell_at r (name_col ws))) (loaded_rows ws),
       index_name = Some ''Name'',
       columns = map (\<lambda>c. PyStr (sheet_names ws ! c)) (data_cols ws),
       columns_name = None,
       cells = map (\<lambda>r. map (\<lambda>c. cell_value False (cell_at r c)) (data_cols ws)) (loaded_rows ws) \<rparr>"

definition no_name_error :: py_error where
  "no_name_error =
     KeyError (''None of ['' @ [CHR 0x27] @ ''Name'' @ [CHR 0x27] @ ''] are in the columns'')"

section \<open>A concrete run\<close>

text \<open>
  A GitHub Actions runner on Linux: \<^verbatim>\<open>GITHUB_ACTIONS\<close> is the text \<^verbatim>\<open>true\<close>, the
  workspace is the checkout, and the notebook's absolute path has no backslash in it.
\<close>

definition runner :: host where
  "runner =
     \<lparr> environ = [''GITHUB_ACTIONS'' \<mapsto> ''true'',
                   ''GITHUB_WORKSPACE'' \<mapsto> ''/home/runner/work/FieldNBalance/FieldNBalance''],
       notebook_abspath = ''/home/runner/work/FieldNBalance/FieldNBalance/WS2.ipynb'',
       path_join = posix_join,
       can_write = (\<lambda>p. True) \<rparr>"

text \<open>
  The sheet with the columns \<^verbatim>\<open>Name\<close> and \<^verbatim>\<open>Depth\<close> and the rows \<^verbatim>\<open>A, 10\<close> and
  \<^verbatim>\<open>B, (blank)\<close>, stored where the script looks for it on that machine.
\<close>

definition two_rows :: worksheet where
  "two_rows = \<lparr> header = [''Name'', ''Depth''],
                 body = [[XText ''A'', XInt 10], [XText ''B'', XBlank]] \<rparr>"

definition two_rows_disk :: "string \<rightharpoonup> disk_file" where
  "two_rows_disk = [xlsx_path runner \<mapsto> XlsxFile two_rows]"

definition two_rows_indexed :: dataframe where
  "two_rows_indexed =
     \<lparr> index = [PyStr ''A'', PyStr ''B''], index_name = Some ''Name'',
       columns = [PyStr ''Depth''], columns_name = None,
       cells = [[PyInt 10], [PyStr []]] \<rparr>"









section \<open>Facts about the string helpers\<close>

lemma startswith_iff: "startswith s p \<longleftrightarrow> (\<exists>q. s = p @ q)"
  by (induction s p rule: startswith.induct) auto

lemma str_contains_iff: "str_contains sub s \<longleftrightarrow> (\<exists>p q. s = p @ sub @ q)"
proof (induction s)
  case Nil
  then show ?case by auto
next
  case (Cons c cs)
  show ?case
  proof
    assume "str_contains sub (c # cs)"
    then consider "startswith (c # cs) sub" | "str_contains sub cs" by auto
    then show "\<exists>p q. c # cs = p @ sub @ q"
    proof cases
      case 1
      then obtain q where "c # cs = sub @ q" by (auto simp: startswith_iff)
      then have "c # cs = [] @ sub @ q" by simp
      then show ?thesis by blast
    next
      case 2
      with Cons obtain p q where "cs = p @ sub @ q" by blast
      then have "c # cs = (c # p) @ sub @ q" by simp
      then show ?thesis by blast
    qed
  next
    assume "\<exists>p q. c # cs = p @ sub @ q"
    then obtain p q where pq: "c # cs = p @ sub @ q" by blast
    show "str_contains sub (c # cs)"
    proof (cases p)
      case Nil
      with pq have "startswith (c # cs) sub" by (auto simp: startswith_iff)
      then show ?thesis by simp
    next
      case (Cons a p')
      with pq have "cs = p' @ sub @ q" by simp
      with Cons.IH have "str_contains sub cs" by blast
      then show ?thesis by simp
    qed
  qed
qed

section \<open>Facts about lists, sheets and frames\<close>


lemma find_label_Some:
  "find_label l xs = Some k \<Longrightarrow> k < length xs \<and> xs ! k = l \<and> l \<notin> set (take k xs)"
proof (induction xs arbitrary: k)
  case Nil
  then show ?case by simp
next
  case (Cons x xs)
  show ?case
  proof (cases "x = l")
    case True
    with Cons.prems show ?thesis by simp
  next
    case False
    with Cons.prems obtain k' where k': "find_label l xs = Some k'" "k = Suc k'"
      by auto
    from Cons.IH [OF k'(1)] k'(2) False show ?thesis by simp
  qed
qed


lemma length_drop_nth: "k < length xs \<Longrightarrow> length (drop_nth k xs) = length xs - 1"
  by (simp add: drop_nth_def)

lemma nth_drop_nth:
  "j < length xs - 1 \<Longrightarrow> drop_nth k xs ! j = (if j < k then xs ! j else xs ! Suc j)"
  by (auto simp: drop_nth_def nth_append min_def)

lemma map_drop_nth: "map f (drop_nth k xs) = drop_nth k (map f xs)"
  by (simp add: drop_nth_def take_map drop_map)


lemma fold_max_ge: "(a::nat) \<le> fold max xs a \<and> (\<forall>x\<in>set xs. x \<le> fold max xs a)"
proof (induction xs arbitrary: a)
  case Nil
  then show ?case by simp
next
  case (Cons x xs)
  from Cons [of "max x a"] show ?case by auto
qed

lemma sheet_width_header: "length hs \<le> sheet_width hs rows"
  using fold_max_ge [of "length hs" "map length rows"] by (simp add: sheet_width_def)

lemma sheet_width_row: "r \<in> set rows \<Longrightarrow> length r \<le> sheet_width hs rows"
  using fold_max_ge [of "length hs" "map length rows"] by (simp add: sheet_width_def)

lemma length_column_names: "length (column_names hs) = length hs"
  by (simp add: column_names_def)

lemma length_pad_to: "length xs \<le> w \<Longrightarrow> length (pad_to w x xs) = w"
  by (simp add: pad_to_def)

lemma nth_pad_to_blank: "c < w \<Longrightarrow> pad_to w XBlank r ! c = cell_at r c"
  by (simp add: pad_to_def cell_at_def nth_append)

lemma length_sheet_names:
  "length (sheet_names ws) = sheet_width (header ws) (loaded_rows ws)"
  by (simp add: sheet_names_def length_column_names length_pad_to sheet_width_header)

lemma kept_columns_less: "c \<in> set (kept_columns f names) \<Longrightarrow> c < length names"
  by (simp add: kept_columns_def)




lemma parse_sheet_script:
  "parse_sheet ws 45 usecols False =
     \<lparr> index = map (\<lambda>i. PyInt (int i)) [0..<length (loaded_rows ws)],
       index_name = None,
       columns = map (\<lambda>c. PyStr (sheet_names ws ! c)) (sheet_cols ws),
       columns_name = None,
       cells = map (\<lambda>r. map (\<lambda>c. cell_value False (cell_at r c)) (sheet_cols ws)) (loaded_rows ws) \<rparr>"
proof -
  let ?w = "sheet_width (header ws) (loaded_rows ws)"
  have less: "c < ?w" if "c \<in> set (sheet_cols ws)" for c
    using that kept_columns_less [of c usecols "sheet_names ws"]
    by (simp add: sheet_cols_def length_sheet_names)
  have "map (\<lambda>c. cell_value False (pad_to ?w XBlank r ! c)) (sheet_cols ws)
      = map (\<lambda>c. cell_value False (cell_at r c)) (sheet_cols ws)" for r
    by (rule map_cong) (simp_all add: less nth_pad_to_blank)
  then show ?thesis
    by (simp add: parse_sheet_def Let_def loaded_rows_def [symmetric] sheet_names_def [symmetric]
        sheet_cols_def [symmetric])
qed

lemma loaded_indexed:
  "set_index ''Name'' (parse_sheet ws 45 usecols False) =
     (case name_pos ws of None \<Rightarrow> Inl no_name_error | Some k \<Rightarrow> Inr (config_table ws))"
proof (cases "name_pos ws")
  case None
  then show ?thesis
    by (simp add: set_index_def parse_sheet_script name_pos_def no_name_error_def)
next
  case (Some k)
  then have k: "k < length (sheet_cols ws)"
    using find_label_Some [of "PyStr ''Name''" "map (\<lambda>c. PyStr (sheet_names ws ! c)) (sheet_cols ws)" k]
    by (simp add: name_pos_def)
  have "map (drop_nth k) (map (\<lambda>r. map (\<lambda>c. cell_value False (cell_at r c)) (sheet_cols ws)) rows)
      = map (\<lambda>r. map (\<lambda>c. cell_value False (cell_at r c)) (drop_nth k (sheet_cols ws))) rows" for rows
    by (simp add: map_drop_nth)
  with Some k show ?thesis
    by (simp add: set_index_def parse_sheet_script name_pos_def [symmetric] config_table_def
        name_col_def data_cols_def map_drop_nth o_def)
qed




section \<open>Facts about the run\<close>

lemma py_eq_getenv_True: "py_eq (os_getenv h k) (PyBool True) = False"
  by (simp add: os_getenv_def split: option.splits)

lemma ci_test_False: "ci_test h = False"
  by (simp add: ci_test_def py_eq_getenv_True)

lemma run_local: "run h fs = exec (script False) (initial h fs)"
  by (simp add: run_def ci_test_False)

lemma resolved_fields:
  "sys (resolved h fs) = h"
  "files (resolved h fs) = fs"
  "events (resolved h fs) = []"
  "v_path (resolved h fs) = Some (local_dir h)"
  "v_root (resolved h fs) = Some (local_root h)"
  "v_inPath (resolved h fs) = None"
  "v_outPath (resolved h fs) = None"
  "v_Configs (resolved h fs) = None"
  "v_CSConfigs (resolved h fs) = None"
  by (simp_all add: resolved_def initial_def)

lemma resolve_dirs_local: "resolve_dirs False (initial h fs) = Inr (resolved h fs)"
  by (simp add: resolve_dirs_def resolved_def local_dir_def local_root_def initial_def
      Let_def case_prod_beta)

lemma load_configs_resolved:
  "load_configs (resolved h fs) =
     (case fs (xlsx_path h) of
        None \<Rightarrow> Inl (FileNotFoundError (xlsx_path h))
      | Some (XlsxFile ws) \<Rightarrow>
          Inr ((resolved h fs) \<lparr> v_Configs := Some (parse_sheet ws 45 usecols False),
                                  events := [ReadFile (xlsx_path h)] \<rparr>)
      | Some _ \<Rightarrow> Inl (ValueError ''Excel file format cannot be determined''))"
  by (simp add: load_configs_def global_def read_excel_def resolved_fields xlsx_path_def
      split: option.splits disk_file.splits)

lemma run_missing_file:
  "fs (xlsx_path h) = None \<Longrightarrow> run h fs = (Some (FileNotFoundError (xlsx_path h)), resolved h fs)"
  by (simp add: run_local script_def resolve_dirs_local load_configs_resolved)

lemma run_sheet:
  assumes "fs (xlsx_path h) = Some (XlsxFile ws)"
  shows "run h fs =
     (case set_index ''Name'' (parse_sheet ws 45 usecols False) of
        Inl e \<Rightarrow>
          (Some e, (resolved h fs) \<lparr> v_Configs := Some (parse_sheet ws 45 usecols False),
                                      events := [ReadFile (xlsx_path h)] \<rparr>)
      | Inr df \<Rightarrow>
          if \<not> can_write h (csv_path h) then
            (Some (OSError (csv_path h)),
             (resolved h fs) \<lparr> v_Configs := Some df, v_CSConfigs := Some (transpose_df df),
                                events := [ReadFile (xlsx_path h)] \<rparr>)
          else if \<not> can_write h (pkl_path h) then
            (Some (OSError (pkl_path h)),
             (resolved h fs) \<lparr> v_Configs := Some df, v_CSConfigs := Some (transpose_df df),
                                events := [ReadFile (xlsx_path h), WriteFile (csv_path h)],
                                files := fs(csv_path h \<mapsto> CsvFile (to_csv_lines (transpose_df df))) \<rparr>)
          else (None, finished h fs df))"
  using assms
  by (simp add: run_local script_def resolve_dirs_local load_configs_resolved
      index_configs_def transpose_configs_def write_csv_def write_pickle_def write_file_def
      global_def finished_def resolved_fields csv_path_def pkl_path_def
      split: sum.splits)

lemma run_not_sheet:
  assumes "fs (xlsx_path h) = Some f" and "\<forall>ws. f \<noteq> XlsxFile ws"
  shows "run h fs = (Some (ValueError ''Excel file format cannot be determined''), resolved h fs)"
  using assms
  by (cases f) (simp_all add: run_local script_def resolve_dirs_local load_configs_resolved)

lemma run_finished:
  assumes "run h fs = (None, s')"
  shows "\<exists>ws df. fs (xlsx_path h) = Some (XlsxFile ws)
           \<and> set_index ''Name'' (parse_sheet ws 45 usecols False) = Inr df
           \<and> can_write h (csv_path h) \<and> can_write h (pkl_path h)
           \<and> s' = finished h fs df"
proof (cases "fs (xlsx_path h)")
  case None
  with assms show ?thesis by (simp add: run_missing_file)
next
  case (Some f)
  show ?thesis
  proof (cases f)
    case (XlsxFile ws)
    with Some have sheet: "fs (xlsx_path h) = Some (XlsxFile ws)" by simp
    from assms show ?thesis
      unfolding run_sheet [of fs h ws, OF sheet] using sheet
      by (auto split: sum.splits if_splits)
  next
    case (CsvFile ls)
    with Some assms show ?thesis by (simp add: run_not_sheet)
  next
    case (PklFile df)
    with Some assms show ?thesis by (simp add: run_not_sheet)
  qed
qed

section \<open>Facts about the outcomes of a run\<close>

lemma walk_no_match:
  "''FieldNBalance'' \<notin> set xs \<Longrightarrow>
     walk xs root d = (root @ concat (map (\<lambda>x. x @ [backslash]) xs),
                       if xs = [] then d else Some (last xs))"
  by (induction xs arbitrary: root d) auto

lemma py_split_not_Nil: "py_split sep s \<noteq> []"
  by (induction s) (auto split: list.splits)

lemma concat_py_split: "concat (map (\<lambda>x. x @ [sep]) (py_split sep s)) = s @ [sep]"
proof (induction s)
  case Nil
  then show ?case by simp
next
  case (Cons c cs)
  show ?case
  proof (cases "c = sep")
    case True
    with Cons show ?thesis by simp
  next
    case False
    obtain f fs where ffs: "py_split sep cs = f # fs"
      using py_split_not_Nil [of sep cs] by (cases "py_split sep cs") auto
    with Cons False show ?thesis by simp
  qed
qed

lemma initial_fields:
  "files (initial h fs) = fs"
  "events (initial h fs) = []"
  "v_path (initial h fs) = None"
  "v_Configs (initial h fs) = None"
  by (simp_all add: initial_def)

lemma exec_script_ci:
  "exec (script True) (initial h fs) =
     (case environ h ''GITHUB_WORKSPACE'' of
        None \<Rightarrow> (Some (KeyError ''GITHUB_WORKSPACE''), initial h fs)
      | Some root \<Rightarrow>
          (Some (NameError ''path''),
           (initial h fs)
             \<lparr> v_root := Some root,
               v_inPath := Some (path_join h root
                   [''TestComponents'', ''TestSets'', ''Moisture'', ''Outputs'']),
               v_outPath := Some (path_join h root [''TestGraphs'', ''Outputs'']) \<rparr>))"
  by (simp add: script_def resolve_dirs_def os_environ_get_def load_configs_def global_def
      initial_def split: option.splits)

lemma run_outcomes:
  obtains
    (missing) "fs (xlsx_path h) = None"
      "run h fs = (Some (FileNotFoundError (xlsx_path h)), resolved h fs)"
  | (not_sheet) f where "fs (xlsx_path h) = Some f"
      "run h fs = (Some (ValueError ''Excel file format cannot be determined''), resolved h fs)"
  | (no_name) ws e where "fs (xlsx_path h) = Some (XlsxFile ws)"
      "set_index ''Name'' (parse_sheet ws 45 usecols False) = Inl e"
      "run h fs = (Some e, (resolved h fs) \<lparr> v_Configs := Some (parse_sheet ws 45 usecols False),
                                               events := [ReadFile (xlsx_path h)] \<rparr>)"
  | (no_csv) ws df where "fs (xlsx_path h) = Some (XlsxFile ws)"
      "set_index ''Name'' (parse_sheet ws 45 usecols False) = Inr df"
      "run h fs = (Some (OSError (csv_path h)),
         (resolved h fs) \<lparr> v_Configs := Some df, v_CSConfigs := Some (transpose_df df),
                            events := [ReadFile (xlsx_path h)] \<rparr>)"
  | (no_pkl) ws df where "fs (xlsx_path h) = Some (XlsxFile ws)"
      "set_index ''Name'' (parse_sheet ws 45 usecols False) = Inr df"
      "run h fs = (Some (OSError (pkl_path h)),
         (resolved h fs) \<lparr> v_Configs := Some df, v_CSConfigs := Some (transpose_df df),
                            events := [ReadFile (xlsx_path h), WriteFile (csv_path h)],
                            files := fs(csv_path h \<mapsto> CsvFile (to_csv_lines (transpose_df df))) \<rparr>)"
  | (complete) ws df where "fs (xlsx_path h) = Some (XlsxFile ws)"
      "set_index ''Name'' (parse_sheet ws 45 usecols False) = Inr df"
      "run h fs = (None, finished h fs df)"
proof (cases "fs (xlsx_path h)")
  case None
  then show ?thesis using missing by (simp add: run_missing_file)
next
  case (Some f)
  show ?thesis
  proof (cases "\<exists>ws. f = XlsxFile ws")
    case False
    with Some show ?thesis using not_sheet [of f] by (simp add: run_not_sheet)
  next
    case True
    then obtain ws where "f = XlsxFile ws" by blast
    with Some have sheet: "fs (xlsx_path h) = Some (XlsxFile ws)" by simp
    note r = run_sheet [of fs h ws, OF sheet]
    show ?thesis
    proof (cases "set_index ''Name'' (parse_sheet ws 45 usecols False)")
      case (Inl e)
      with r sheet show ?thesis using no_name [of ws e] by simp
    next
      case (Inr df)
      with r sheet show ?thesis
        using no_csv [of ws df] no_pkl [of ws df] complete [of ws df]
        by (cases "can_write h (csv_path h)"; cases "can_write h (pkl_path h)") simp_all
    qed
  qed
qed

lemma run_keeps_dirs:
  "v_root (snd (run h fs)) = Some (local_root h)
   \<and> v_path (snd (run h fs)) = Some (local_dir h)
   \<and> v_inPath (snd (run h fs)) = None
   \<and> v_outPath (snd (run h fs)) = None"
  by (cases h fs rule: run_outcomes) (simp_all add: resolved_fields finished_def)

lemma run_effects:
  "(\<forall>p. p \<noteq> csv_path h \<and> p \<noteq> pkl_path h \<longrightarrow> files (snd (run h fs)) p = fs p)
   \<and> list_all (\<lambda>e. e = ReadFile (xlsx_path h) \<or> e = WriteFile (csv_path h) \<or> e = WriteFile (pkl_path h))
       (events (snd (run h fs)))"
  by (cases h fs rule: run_outcomes) (simp_all add: resolved_fields finished_def)

section \<open>Facts about the loaded table and its CSV records\<close>

lemma csv_records_transpose:
  "csv_records (transpose_df df) =
     ((case columns_name df of None \<Rightarrow> [] | Some n \<Rightarrow> n) # map csv_str (index df))
     # map (\<lambda>j. csv_str (columns df ! j) # map (\<lambda>r. csv_str (r ! j)) (cells df))
         [0..<length (columns df)]"
proof -
  have "map (\<lambda>(l, r). csv_str l # map csv_str r)
          (zip (columns df) (map (\<lambda>j. map (\<lambda>r. r ! j) (cells df)) [0..<length (columns df)]))
      = map (\<lambda>j. csv_str (columns df ! j) # map (\<lambda>r. csv_str (r ! j)) (cells df))
          [0..<length (columns df)]"
    by (rule nth_equalityI) (simp_all add: o_def)
  then show ?thesis
    by (simp add: csv_records_def transpose_df_def)
qed


lemma csv_records_transpose_label:
  assumes "j < length (columns df)"
  shows "csv_records (transpose_df df) ! Suc j ! 0 = csv_str (columns df ! j)"
  using assms by (simp add: csv_records_transpose)



lemma cell_value_blank: "cell_value False XBlank = PyStr []"
  by simp


text \<open>The table is rectangular, so every cell \<open>transpose_df\<close> and \<open>set_index\<close> read by
  position is a cell of it.\<close>

lemma config_table_rect: "rect (config_table ws)"
  by (simp add: rect_def config_table_def list_all_iff)





lemma run_finished_table:
  assumes "run h fs = (None, s')" and "fs (xlsx_path h) = Some (XlsxFile ws)"
  shows "\<exists>k. name_pos ws = Some k"
    and "set_index ''Name'' (parse_sheet ws 45 usecols False) = Inr (config_table ws)"
    and "s' = finished h fs (config_table ws)"
proof -
  from run_finished [OF assms(1)] assms(2) obtain df where
    df: "set_index ''Name'' (parse_sheet ws 45 usecols False) = Inr df"
    and s': "s' = finished h fs df"
    by auto
  from df show k: "\<exists>k. name_pos ws = Some k"
    by (cases "name_pos ws") (simp_all add: loaded_indexed)
  with df have "df = config_table ws"
    by (auto simp: loaded_indexed)
  with df s' show "set_index ''Name'' (parse_sheet ws 45 usecols False) = Inr (config_table ws)"
    and "s' = finished h fs (config_table ws)"
    by simp_all
qed

lemma finished_fields:
  "v_Configs (finished h fs df) = Some df"
  "v_CSConfigs (finished h fs df) = Some (transpose_df df)"
  "files (finished h fs df) (pkl_path h) = Some (PklFile df)"
  "csv_path h \<noteq> pkl_path h \<Longrightarrow>
     files (finished h fs df) (csv_path h) = Some (CsvFile (to_csv_lines (transpose_df df)))"
  "events (finished h fs df)
     = [ReadFile (xlsx_path h), WriteFile (csv_path h), WriteFile (pkl_path h)]"
  by (simp_all add: finished_def)

section \<open>Facts about the concrete run\<close>

lemma runner_paths:
  "local_root runner = ''/home/runner/work/FieldNBalance/FieldNBalance/WS2.ipynb'' @ [backslash]"
  "local_dir runner = ''/home/runner/work/FieldNBalance/FieldNBalance/WS2.ipynb'' @ [backslash]
      @ ''/FieldNBalance/TestComponents/TestSets/Moisture''"
  "csv_path runner = local_dir runner @ ''/FieldConfigs.csv''"
  "pkl_path runner = local_dir runner @ ''/FieldConfigs.pkl''"
  "xlsx_path runner = local_dir runner @ ''/FieldConfigs.xlsx''"
  by (simp_all add: local_root_def local_dir_def csv_path_def pkl_path_def xlsx_path_def
      runner_def backslash_def)

lemma runner_paths_differ:
  "csv_path runner \<noteq> pkl_path runner"
  "xlsx_path runner \<noteq> csv_path runner"
  "xlsx_path runner \<noteq> pkl_path runner"
  by (simp_all add: runner_paths)

lemma two_rows_loaded:
  "set_index ''Name'' (parse_sheet two_rows 45 usecols False) = Inr two_rows_indexed"
  by (simp add: set_index_def parse_sheet_def two_rows_def two_rows_indexed_def Let_def
      sheet_width_def pad_to_def column_names_def kept_columns_def usecols_def drop_nth_def
      upt_conv_Cons)

lemma two_rows_run: "run runner two_rows_disk = (None, finished runner two_rows_disk two_rows_indexed)"
proof -
  have "two_rows_disk (xlsx_path runner) = Some (XlsxFile two_rows)"
    by (simp add: two_rows_disk_def)
  from run_sheet [of two_rows_disk runner two_rows, OF this] show ?thesis
    by (simp add: two_rows_loaded) (simp add: runner_def)
qed

lemma two_rows_csv:
  "to_csv_lines (transpose_df two_rows_indexed) = ['',A,B'', ''Depth,10,'']"
  by (simp add: to_csv_lines_def csv_records_def transpose_df_def two_rows_indexed_def
      csv_line_def csv_field_def str_int_def str_nat.simps upt_conv_Cons)







section \<open>Claim C1: the CSV file\<close>

text \<open>
  C1 as the code has it: after a run that reaches the end, \<^verbatim>\<open>FieldConfigs.csv\<close> holds the
  transposed table. The column labels of \<^verbatim>\<open>Configs\<close> are the row labels of the transposed
  table and the first field of each data line; the \<^verbatim>\<open>Name\<close> values are its column labels
  and follow the first field of the header line. The first field of the header line is
  empty: it is the name of the row axis of the transposed table, which has none, and
  \<^verbatim>\<open>Name\<close> has become the name of the column axis, which \<^verbatim>\<open>to_csv\<close> does not write.
  The two output paths are taken to differ, as they do for every \<^verbatim>\<open>os.path.join\<close>.
\<close>

theorem c1_csv_is_transposed_table:
  assumes "run h fs = (None, s')" and "csv_path h \<noteq> pkl_path h"
  shows "\<exists>df. v_Configs s' = Some df \<and> v_CSConfigs s' = Some (transpose_df df)
     \<and> index (transpose_df df) = columns df \<and> columns (transpose_df df) = index df
     \<and> index_name (transpose_df df) = None \<and> columns_name (transpose_df df) = Some ''Name''
     \<and> files s' (csv_path h) = Some (CsvFile (map csv_line
          (([] # map csv_str (index df))
           # map (\<lambda>j. csv_str (columns df ! j) # map (\<lambda>r. csv_str (r ! j)) (cells df))
               [0..<length (columns df)])))"
proof -
  from run_finished [OF assms(1)] obtain ws df where
    sheet: "fs (xlsx_path h) = Some (XlsxFile ws)" and s': "s' = finished h fs df"
    by blast
  from run_finished_table [OF assms(1) sheet] s' have s'': "s' = finished h fs (config_table ws)"
    by simp
  have names: "index_name (config_table ws) = Some ''Name''" "columns_name (config_table ws) = None"
    by (simp_all add: config_table_def)
  have "files s' (csv_path h)
      = Some (CsvFile (map csv_line (csv_records (transpose_df (config_table ws)))))"
    using assms(2) by (simp add: s'' finished_fields to_csv_lines_def)
  with names show ?thesis
    by (intro exI [of _ "config_table ws"])
      (simp add: s'' finished_fields csv_records_transpose, simp add: transpose_df_def)
qed

theorem c1_csv_is_transposed_table_witness:
  "run runner two_rows_disk = (None, finished runner two_rows_disk two_rows_indexed)
   \<and> csv_path runner \<noteq> pkl_path runner
   \<and> files (finished runner two_rows_disk two_rows_indexed) (csv_path runner)
       = Some (CsvFile ['',A,B'', ''Depth,10,''])"
proof -
  note ne = runner_paths_differ(1)
  from c1_csv_is_transposed_table [OF two_rows_run ne] two_rows_run ne show ?thesis
    by (simp add: finished_fields two_rows_csv)
qed

text \<open>
  C1 as the spec states it fails on its own scenario: for the sheet with the columns
  \<^verbatim>\<open>Name\<close> and \<^verbatim>\<open>Depth\<close> and the rows \<^verbatim>\<open>A, 10\<close> and \<^verbatim>\<open>B, (blank)\<close> the header line of
  the CSV file is \<^verbatim>\<open>,A,B\<close> and not \<^verbatim>\<open>Name,A,B\<close>.
\<close>

theorem c1_header_line_counterexample:
  "fst (run runner two_rows_disk) = None
   \<and> files (snd (run runner two_rows_disk)) (csv_path runner)
       = Some (CsvFile ['',A,B'', ''Depth,10,''])
   \<and> files (snd (run runner two_rows_disk)) (csv_path runner)
       \<noteq> Some (CsvFile [''Name,A,B'', ''Depth,10,''])"
  by (simp add: two_rows_run finished_fields runner_paths_differ two_rows_csv)

section \<open>Claim C2: the snapshot\<close>



section \<open>Claim C3: the test of line 19\<close>

text \<open>
  C3 says that a run with \<^verbatim>\<open>GITHUB_ACTIONS\<close> set to a true-like text takes the first
  branch and binds the input and output directories from \<^verbatim>\<open>GITHUB_WORKSPACE\<close>. The code
  compares the text of the variable with the boolean \<^verbatim>\<open>True\<close>, which no text equals. On
  the runner, where the variable is \<^verbatim>\<open>true\<close>, the test is false: the run takes the second
  branch, leaves \<^verbatim>\<open>inPath\<close> and \<^verbatim>\<open>outPath\<close> unbound and binds \<^verbatim>\<open>path\<close> from the notebook's
  path.
\<close>

theorem c3_ci_branch_not_taken_on_runner:
  "environ runner ''GITHUB_ACTIONS'' = Some ''true''
   \<and> ci_test runner = False
   \<and> v_inPath (snd (run runner two_rows_disk)) = None
   \<and> v_outPath (snd (run runner two_rows_disk)) = None
   \<and> v_path (snd (run runner two_rows_disk)) = Some (local_dir runner)"
  by (simp add: ci_test_False two_rows_run finished_def resolved_fields) (simp add: runner_def)

section \<open>Claim C4: at most 45 data rows\<close>



section \<open>Claim C5: columns named \<^verbatim>\<open>Unnamed\<close>\<close>



section \<open>Claim C6: blank cells\<close>



section \<open>Claim C7: a sheet without a \<^verbatim>\<open>Name\<close> column\<close>



section \<open>Claim C8: no fragment is the project name\<close>

text \<open>
  C8: in the second branch, when no fragment of the notebook's absolute path is
  \<^verbatim>\<open>FieldNBalance\<close>, the \<^verbatim>\<open>if\<close> statement raises nothing: the loop appends every
  fragment and a backslash to \<^verbatim>\<open>root\<close>, which ends as the whole path and a backslash,
  and the run goes on with \<^verbatim>\<open>path\<close> joined from that root.
\<close>

theorem c8_no_project_fragment:
  assumes "''FieldNBalance'' \<notin> set (py_split backslash (notebook_abspath h))"
  shows "resolve_dirs (ci_test h) (initial h fs) = Inr (resolved h fs)
    \<and> v_root (resolved h fs)
        = Some (concat (map (\<lambda>d. d @ [backslash]) (py_split backslash (notebook_abspath h))))
    \<and> v_root (resolved h fs) = Some (notebook_abspath h @ [backslash])
    \<and> v_root (snd (run h fs)) = Some (notebook_abspath h @ [backslash])
    \<and> v_path (snd (run h fs))
        = Some (path_join h (notebook_abspath h @ [backslash])
            [''FieldNBalance'', ''TestComponents'', ''TestSets'', ''Moisture''])"
proof -
  from assms have root: "local_root h = notebook_abspath h @ [backslash]"
    by (simp add: local_root_def walk_no_match concat_py_split)
  then show ?thesis
    using run_keeps_dirs [of h fs]
    by (simp add: ci_test_False resolve_dirs_local resolved_fields concat_py_split local_dir_def)
qed

theorem c8_no_project_fragment_witness:
  "''FieldNBalance'' \<notin> set (py_split backslash (notebook_abspath runner))
   \<and> resolve_dirs (ci_test runner) (initial runner two_rows_disk) = Inr (resolved runner two_rows_disk)
   \<and> v_root (snd (run runner two_rows_disk))
       = Some (''/home/runner/work/FieldNBalance/FieldNBalance/WS2.ipynb'' @ [backslash])"
proof -
  have a: "''FieldNBalance'' \<notin> set (py_split backslash (notebook_abspath runner))"
    by (simp add: runner_def backslash_def)
  from c8_no_project_fragment [OF a, of two_rows_disk] a show ?thesis
    by (simp add: runner_def)
qed

section \<open>Claim C9: what a run writes\<close>

text \<open>
  C9: whichever branch of line 19 is taken, the run changes no file other than
  \<^verbatim>\<open>FieldConfigs.csv\<close> and \<^verbatim>\<open>FieldConfigs.pkl\<close> in the directory \<^verbatim>\<open>path\<close>, the one it
  reads \<^verbatim>\<open>FieldConfigs.xlsx\<close> from; these are its only file operations. When the first
  branch is taken, the one that binds \<^verbatim>\<open>outPath\<close>, nothing is read or written at all; and
  a run as the script tests line 19 ends with \<^verbatim>\<open>outPath\<close> unbound.
\<close>

theorem c9_only_two_files_written:
  "(\<forall>p. p \<noteq> path_join h (local_dir h) [''FieldConfigs.csv'']
        \<and> p \<noteq> path_join h (local_dir h) [''FieldConfigs.pkl'']
        \<longrightarrow> files (snd (exec (script ci) (initial h fs))) p = fs p)
   \<and> list_all (\<lambda>e. e = ReadFile (path_join h (local_dir h) [''FieldConfigs.xlsx''])
                 \<or> e = WriteFile (path_join h (local_dir h) [''FieldConfigs.csv''])
                 \<or> e = WriteFile (path_join h (local_dir h) [''FieldConfigs.pkl'']))
        (events (snd (exec (script ci) (initial h fs))))
   \<and> (ci \<longrightarrow> events (snd (exec (script ci) (initial h fs))) = []
            \<and> files (snd (exec (script ci) (initial h fs))) = fs)
   \<and> v_outPath (snd (run h fs)) = None"
proof (cases ci)
  case True
  then show ?thesis
    using run_keeps_dirs [of h fs]
    by (simp add: exec_script_ci initial_fields split: option.splits)
next
  case False
  then show ?thesis
    using run_effects [of h fs] run_keeps_dirs [of h fs]
    by (simp add: run_local csv_path_def pkl_path_def xlsx_path_def)
qed

theorem c9_only_two_files_written_witness:
  "events (snd (exec (script False) (initial runner two_rows_disk)))
     = [ReadFile (xlsx_path runner), WriteFile (csv_path runner), WriteFile (pkl_path runner)]
   \<and> files (snd (exec (script False) (initial runner two_rows_disk))) (xlsx_path runner)
     = Some (XlsxFile two_rows)
   \<and> events (snd (exec (script True) (initial runner two_rows_disk))) = []"
proof -
  have ne: "xlsx_path runner \<noteq> path_join runner (local_dir runner) [''FieldConfigs.csv'']"
    "xlsx_path runner \<noteq> path_join runner (local_dir runner) [''FieldConfigs.pkl'']"
    using runner_paths by (simp_all add: csv_path_def pkl_path_def)
  have ev: "events (snd (exec (script False) (initial runner two_rows_disk)))
     = [ReadFile (xlsx_path runner), WriteFile (csv_path runner), WriteFile (pkl_path runner)]"
    using two_rows_run by (simp add: run_local finished_def)
  from c9_only_two_files_written [of runner False two_rows_disk] ne
  have kept: "files (snd (exec (script False) (initial runner two_rows_disk))) (xlsx_path runner)
      = two_rows_disk (xlsx_path runner)"
    by blast
  from c9_only_two_files_written [of runner True two_rows_disk]
  have none: "events (snd (exec (script True) (initial runner two_rows_disk))) = []"
    by blast
  from ev kept none show ?thesis by (simp add: two_rows_disk_def)
qed

section \<open>Claim C10: the first branch leaves \<^verbatim>\<open>path\<close> unbound\<close>

text \<open>
  C10: if the first branch of line 19 is taken, the run fails before the spreadsheet is
  read. With the test taken as true, the run ends in an exception on every machine and
  with any files, having read and written nothing and with \<^verbatim>\<open>path\<close> unbound: when
  \<^verbatim>\<open>GITHUB_WORKSPACE\<close> is set, the branch binds \<^verbatim>\<open>root\<close>, \<^verbatim>\<open>inPath\<close> and \<^verbatim>\<open>outPath\<close>
  and line 34 raises \<^verbatim>\<open>NameError\<close> for \<^verbatim>\<open>path\<close>; when it is not set, line 20 raises
  \<^verbatim>\<open>KeyError\<close>.
\<close>

theorem c10_ci_branch_fails_before_load:
  "fst (exec (script True) (initial h fs)) =
     Some (case environ h ''GITHUB_WORKSPACE'' of
             None \<Rightarrow> KeyError ''GITHUB_WORKSPACE''
           | Some root \<Rightarrow> NameError ''path'')
   \<and> events (snd (exec (script True) (initial h fs))) = []
   \<and> files (snd (exec (script True) (initial h fs))) = fs
   \<and> v_path (snd (exec (script True) (initial h fs))) = None
   \<and> v_Configs (snd (exec (script True) (initial h fs))) = None
   \<and> v_inPath (snd (exec (script True) (initial h fs))) =
       map_option (\<lambda>root. path_join h root
           [''TestComponents'', ''TestSets'', ''Moisture'', ''Outputs''])
         (environ h ''GITHUB_WORKSPACE'')
   \<and> v_outPath (snd (exec (script True) (initial h fs))) =
       map_option (\<lambda>root. path_join h root [''TestGraphs'', ''Outputs''])
         (environ h ''GITHUB_WORKSPACE'')"
  by (simp add: script_def resolve_dirs_def os_environ_get_def load_configs_def global_def
      initial_def split: option.splits)

end
